theory Spec2Isabelle
  imports Main
begin

section \<open>JavaScript values\<close>

text \<open>
  The handlers of the bookmarks router work on JSON-like values: query strings, request
  bodies, rows and response bodies. An object is the list of its own enumerable entries in
  the order \<^verbatim>\<open>Object.entries\<close> yields them; the property name \<^verbatim>\<open>__proto__\<close>,
  which an assignment treats in a way of its own, is left out. Numbers are integers (row
  counts and epoch milliseconds are the only numbers the router computes with). A promise
  is the value it settles to.
\<close>

datatype js_error =
    TypeError
  | ERR_HTTP_HEADERS_SENT
  | ValidationError
  | UniqueConstraintError
  | DatabaseError

datatype 'a settled = Fulfilled 'a | Rejected js_error

datatype jsval =
    JUndefined
  | JNull
  | JBool bool
  | JNum int
  | JStr string
  | JArr "jsval list"
  | JObj "(string \<times> jsval) list"
  | JPromise "jsval settled"

type_synonym jsobj = "(string \<times> jsval) list"

text \<open>\<^verbatim>\<open>ToBoolean\<close>: what \<^verbatim>\<open>if (x)\<close>, \<^verbatim>\<open>!x\<close> and \<^verbatim>\<open>x || y\<close> test. Every
  object is truthy, a promise included.\<close>

fun truthy :: "jsval \<Rightarrow> bool" where
  "truthy JUndefined = False"
| "truthy JNull = False"
| "truthy (JBool b) = b"
| "truthy (JNum n) = (n \<noteq> 0)"
| "truthy (JStr s) = (s \<noteq> [])"
| "truthy (JArr xs) = True"
| "truthy (JObj kvs) = True"
| "truthy (JPromise p) = True"

definition js_or :: "jsval \<Rightarrow> jsval \<Rightarrow> jsval" where
  "js_or a b = (if truthy a then a else b)"

definition keys :: "jsobj \<Rightarrow> string list" where
  "keys obj = map fst obj"

definition hasOwnProperty :: "jsobj \<Rightarrow> string \<Rightarrow> bool" where
  "hasOwnProperty obj key = (key \<in> set (keys obj))"

text \<open>\<^verbatim>\<open>obj[key]\<close> on an object: the own property, or undefined.\<close>

definition lookup :: "jsobj \<Rightarrow> string \<Rightarrow> jsval" where
  "lookup obj key = (case map_of obj key of None \<Rightarrow> JUndefined | Some v \<Rightarrow> v)"

text \<open>\<^verbatim>\<open>obj[key] = v\<close>: an existing property keeps its place, a new one goes last.\<close>

fun set_prop :: "jsobj \<Rightarrow> string \<Rightarrow> jsval \<Rightarrow> jsobj" where
  "set_prop [] key v = [(key, v)]"
| "set_prop ((k, w) # obj) key v =
     (if k = key then (k, v) # obj else (k, w) # set_prop obj key v)"

text \<open>\<^verbatim>\<open>x.key\<close> on any value: a TypeError on undefined and null, the own property of an
  object, undefined on anything else (no key the router reads is a built-in property).\<close>

fun get_member :: "jsval \<Rightarrow> string \<Rightarrow> js_error + jsval" where
  "get_member JUndefined key = Inl TypeError"
| "get_member JNull key = Inl TypeError"
| "get_member (JObj obj) key = Inr (lookup obj key)"
| "get_member v key = Inr JUndefined"

text \<open>\<^verbatim>\<open>Object.assign(target, source)\<close> writes every own entry of the source into the
  target object itself and returns it; a source that is not an object with entries adds
  nothing.\<close>

fun object_assign :: "jsobj \<Rightarrow> jsval \<Rightarrow> jsobj" where
  "object_assign target (JObj src) = fold (\<lambda>(k, v) t. set_prop t k v) src target"
| "object_assign target v = target"

section \<open>The query splitter\<close>

text \<open>The module-level object \<^verbatim>\<open>defaultQueryParams\<close> as the module is loaded.\<close>

definition defaultQueryParams :: jsobj where
  "defaultQueryParams =
     [(''limit'', JNum 50), (''offset'', JNum 0),
      (''sort_by'', JStr ''createdAt''), (''sort_dir'', JStr ''asc'')]"

text \<open>
  \<^verbatim>\<open>explodeRequestQuery(obj)\<close>. The first argument is the current content of the module's
  \<^verbatim>\<open>defaultQueryParams\<close>, which the function reads through \<^verbatim>\<open>hasOwnProperty\<close>. The
  \<^verbatim>\<open>return\<close> is the last statement of the loop body, so the loop ends in its first
  round; with no entry the body never runs and the function returns undefined.
\<close>

fun explodeRequestQuery :: "jsobj \<Rightarrow> jsobj \<Rightarrow> jsval" where
  "explodeRequestQuery dqp [] = JUndefined"
| "explodeRequestQuery dqp ((key, param) # rest) =
     (let queryParams = []; whereClause = [] in
      if hasOwnProperty dqp key
      then JObj [(''query'', JObj (set_prop queryParams key param)),
                 (''where'', JObj whereClause)]
      else JObj [(''query'', JObj queryParams),
                 (''where'', JObj (set_prop whereClause key param))])"

definition control_keys :: "string set" where
  "control_keys = {''limit'', ''offset'', ''sort_by'', ''sort_dir''}"

text \<open>The own keys of the bucket \<open>name\<close> of a splitter result.\<close>

definition bucket_keys :: "jsval \<Rightarrow> string \<Rightarrow> string set" where
  "bucket_keys r name =
     (case get_member r name of Inr (JObj b) \<Rightarrow> set (keys b) | _ \<Rightarrow> {})"

section \<open>The world a handler runs in\<close>

text \<open>
  A handler sees three pieces of state: the response object \<^verbatim>\<open>res\<close>, the table behind
  \<^verbatim>\<open>models.bookmarks\<close> and the module-level \<^verbatim>\<open>defaultQueryParams\<close>. The response
  is the list of the calls \<^verbatim>\<open>res.status(code).json(body)\<close> made so far, oldest first;
  the first one is what the client receives.
\<close>

record 's world =
  responses :: "(nat \<times> jsval) list"
  store :: 's
  defaults :: jsobj

definition fresh :: "'s \<Rightarrow> jsobj \<Rightarrow> 's world" where
  "fresh s d = \<lparr>responses = [], store = s, defaults = d\<rparr>"

text \<open>The next request finds the table and the module as the last one left them, and has
  a response object of its own.\<close>

definition next_request :: "'s world \<Rightarrow> 's world" where
  "next_request w = w\<lparr>responses := []\<rparr>"

text \<open>A computation changes the world and either throws or yields a value.\<close>

type_synonym ('s, 'a) io = "'s world \<Rightarrow> 's world \<times> (js_error + 'a)"

definition io_return :: "'a \<Rightarrow> ('s, 'a) io" where
  "io_return v w = (w, Inr v)"

definition io_throw :: "js_error \<Rightarrow> ('s, 'a) io" where
  "io_throw e w = (w, Inl e)"

definition io_bind :: "('s, 'a) io \<Rightarrow> ('a \<Rightarrow> ('s, 'b) io) \<Rightarrow> ('s, 'b) io" where
  "io_bind m k w = (case m w of (w', Inl e) \<Rightarrow> (w', Inl e) | (w', Inr v) \<Rightarrow> k v w')"

definition io_then :: "('s, 'a) io \<Rightarrow> ('s, 'b) io \<Rightarrow> ('s, 'b) io" where
  "io_then m k = io_bind m (\<lambda>_. k)"

definition io_when :: "bool \<Rightarrow> ('s, unit) io \<Rightarrow> ('s, unit) io" where
  "io_when b m = (if b then m else io_return ())"

text \<open>\<^verbatim>\<open>try { m } catch (error) { h(error) }\<close>\<close>

definition try_catch :: "('s, 'a) io \<Rightarrow> (js_error \<Rightarrow> ('s, 'a) io) \<Rightarrow> ('s, 'a) io" where
  "try_catch m h w = (case m w of (w', Inl e) \<Rightarrow> h e w' | (w', Inr v) \<Rightarrow> (w', Inr v))"

text \<open>
  \<^verbatim>\<open>res.status(code).json(body)\<close>. Express sends the first response of a request; a
  later call on the same \<^verbatim>\<open>res\<close> throws, the headers being sent already. The call is
  recorded either way.
\<close>

definition res_json :: "nat \<Rightarrow> jsval \<Rightarrow> ('s, unit) io" where
  "res_json code body w =
     (w\<lparr>responses := responses w @ [(code, body)]\<rparr>,
      if responses w = [] then Inr () else Inl ERR_HTTP_HEADERS_SENT)"

text \<open>
  The methods of \<^verbatim>\<open>models.bookmarks\<close> are the object-relational mapper's, not this
  repository's: each handler takes the methods it calls as arguments. A read looks at the
  table and fulfils or rejects; a write also yields the table it leaves.
\<close>

type_synonym ('s, 'a) orm_read = "jsval \<Rightarrow> 's \<Rightarrow> js_error + 'a"
type_synonym 's orm_write = "jsval \<Rightarrow> 's \<Rightarrow> 's \<times> (js_error + jsval)"

text \<open>\<^verbatim>\<open>await f(options)\<close>\<close>

definition await_read :: "('s \<Rightarrow> js_error + 'a) \<Rightarrow> ('s, 'a) io" where
  "await_read f w = (w, f (store w))"

definition await_write :: "('s \<Rightarrow> 's \<times> (js_error + jsval)) \<Rightarrow> ('s, jsval) io" where
  "await_write f w = (case f (store w) of (s', out) \<Rightarrow> (w\<lparr>store := s'\<rparr>, out))"

text \<open>\<^verbatim>\<open>await p\<close> on a value: what a settled promise gives, the value itself otherwise.\<close>

fun await :: "jsval \<Rightarrow> js_error + jsval" where
  "await (JPromise (Fulfilled v)) = Inr v"
| "await (JPromise (Rejected e)) = Inl e"
| "await v = Inr v"

section \<open>The existence check\<close>

text \<open>The options \<^verbatim>\<open>{where: {guid: guid}}\<close>.\<close>

definition where_guid :: "string \<Rightarrow> jsval" where
  "where_guid g = JObj [(''where'', JObj [(''guid'', JStr g)])]"

text \<open>
  \<^verbatim>\<open>chechGuidExistence(guid)\<close>, an async function: the promise it returns. The callback
  of \<^verbatim>\<open>then\<close> computes the boolean, the \<^verbatim>\<open>await\<close> expression receives it, and the
  statement drops it; the body ends with no \<^verbatim>\<open>return\<close>.
\<close>

definition count_callback :: "nat \<Rightarrow> jsval" where
  "count_callback count = (if count = 0 then JBool False else JBool True)"

definition promise_then :: "js_error + 'a \<Rightarrow> ('a \<Rightarrow> jsval) \<Rightarrow> jsval" where
  "promise_then p f =
     (case p of Inl e \<Rightarrow> JPromise (Rejected e) | Inr v \<Rightarrow> JPromise (Fulfilled (f v)))"

definition chechGuidExistence :: "('s, nat) orm_read \<Rightarrow> string \<Rightarrow> 's \<Rightarrow> jsval" where
  "chechGuidExistence count g s =
     (case await (promise_then (count (where_guid g) s) count_callback) of
        Inl e \<Rightarrow> JPromise (Rejected e)
      | Inr awaited \<Rightarrow> JPromise (Fulfilled JUndefined))"

section \<open>The link validator\<close>

text \<open>\<^verbatim>\<open>bookmarkLinkConstraints\<close> of the validators module.\<close>

record url_rule =
  schemes :: "string list"
  url_message :: jsval

record exclusion_rule =
  within :: jsobj
  exclusion_message :: jsval

record link_constraints =
  presence :: bool
  url :: url_rule
  exclusion :: exclusion_rule

definition bookmarkLinkConstraints :: link_constraints where
  "bookmarkLinkConstraints =
     \<lparr>presence = True,
      url = \<lparr>schemes = [''.+''],
             url_message = JObj [(''code'', JStr ''BOOKMARKS_INVALID_LINK''),
                                 (''description'', JStr ''Link invalid'')]\<rparr>,
      exclusion =
        \<lparr>within = [(''http://yahoo.com'', JStr ''Yahoo''),
                   (''https://yahoo.com'', JStr ''Yahoo''),
                   (''http://socket.io'', JStr ''Socket.io''),
                   (''https://socket.io'', JStr ''Socket.io'')],
         exclusion_message = JObj [(''code'', JStr ''BOOKMARKS_BLOCKED_DOMAIN''),
                                   (''description'', JStr ''Link is banned'')]\<rparr>\<rparr>"

text \<open>
  The three rules are run by the validation library, which is not part of the repository.
  They follow the library's documented behaviour: every rule but presence passes an
  undefined or null value; presence, switched on with \<^verbatim>\<open>true\<close>, rejects exactly
  undefined and null, with the library's own message, prefixed with the attribute's name;
  the url rule rejects a value that is not a string or does not match the pattern the
  library builds from the schemes; the exclusion rule rejects a key of \<^verbatim>\<open>within\<close>. The
  pattern test is the argument \<open>pat\<close>. A defined value that is not a string fails the url
  rule, and so does a property name that \<^verbatim>\<open>within\<close> only inherits (none contains
  \<^verbatim>\<open>://\<close>); what the exclusion rule adds after that error is left out, the handlers
  reading the first error only.
\<close>

definition is_defined :: "jsval \<Rightarrow> bool" where
  "is_defined v = (v \<noteq> JUndefined \<and> v \<noteq> JNull)"

definition presence_errors :: "bool \<Rightarrow> jsval \<Rightarrow> jsval list" where
  "presence_errors on v =
     (if on \<and> \<not> is_defined v then [JStr ''Link can't be blank''] else [])"

definition url_errors :: "(string list \<Rightarrow> string \<Rightarrow> bool) \<Rightarrow> url_rule \<Rightarrow> jsval \<Rightarrow> jsval list" where
  "url_errors pat rule v =
     (if \<not> is_defined v then []
      else case v of
             JStr s \<Rightarrow> (if pat (schemes rule) s then [] else [url_message rule])
           | _ \<Rightarrow> [url_message rule])"

definition exclusion_errors :: "exclusion_rule \<Rightarrow> jsval \<Rightarrow> jsval list" where
  "exclusion_errors rule v =
     (case v of
        JStr s \<Rightarrow> (if hasOwnProperty (within rule) s then [exclusion_message rule] else [])
      | _ \<Rightarrow> [])"

text \<open>\<^verbatim>\<open>validate(body, {link: bookmarkLinkConstraints})\<close>: undefined when no rule
  fails, else the object holding the errors of \<^verbatim>\<open>link\<close> in the order of the rules.\<close>

definition validate :: "(string list \<Rightarrow> string \<Rightarrow> bool) \<Rightarrow> jsobj \<Rightarrow> jsval" where
  "validate pat body =
     (let v = lookup body ''link'';
          c = bookmarkLinkConstraints;
          errors = presence_errors (presence c) v @ url_errors pat (url c) v
                   @ exclusion_errors (exclusion c) v
      in if errors = [] then JUndefined else JObj [(''link'', JArr errors)])"

text \<open>\<^verbatim>\<open>x[i]\<close> on a value.\<close>

fun get_index :: "jsval \<Rightarrow> nat \<Rightarrow> js_error + jsval" where
  "get_index JUndefined i = Inl TypeError"
| "get_index JNull i = Inl TypeError"
| "get_index (JArr xs) i = Inr (if i < length xs then xs ! i else JUndefined)"
| "get_index v i = Inr JUndefined"

text \<open>The statement both validating handlers run when the result is truthy:
  \<^verbatim>\<open>res.status(400).json({errors: {validation: validationResult.link[0]}})\<close>.\<close>

definition send_validation_error :: "jsval \<Rightarrow> ('s, unit) io" where
  "send_validation_error validationResult =
     (case get_member validationResult ''link'' of
        Inl e \<Rightarrow> io_throw e
      | Inr errs \<Rightarrow>
          (case get_index errs 0 of
             Inl e \<Rightarrow> io_throw e
           | Inr first \<Rightarrow>
               res_json 400 (JObj [(''errors'', JObj [(''validation'', first)])])))"

definition invalid_link :: jsval where
  "invalid_link = JObj [(''code'', JStr ''BOOKMARKS_INVALID_LINK''),
                        (''description'', JStr ''Link invalid'')]"

definition blocked_domain :: jsval where
  "blocked_domain = JObj [(''code'', JStr ''BOOKMARKS_BLOCKED_DOMAIN''),
                          (''description'', JStr ''Link is banned'')]"

definition banned_links :: "string set" where
  "banned_links = {''http://yahoo.com'', ''https://yahoo.com'',
                   ''http://socket.io'', ''https://socket.io''}"

text \<open>What a client is told about the link of a body: the value
  \<^verbatim>\<open>validationResult.link[0]\<close> the handlers put in the 400 response, or nothing when
  the validation result is falsy and the link is accepted.\<close>

definition link_verdict :: "(string list \<Rightarrow> string \<Rightarrow> bool) \<Rightarrow> jsobj \<Rightarrow> jsval option" where
  "link_verdict pat body =
     (let validationResult = validate pat body in
      if truthy validationResult
      then (case get_member validationResult ''link'' of
              Inl e \<Rightarrow> None
            | Inr errs \<Rightarrow> (case get_index errs 0 of Inl e \<Rightarrow> None | Inr first \<Rightarrow> Some first))
      else None)"

text \<open>A pattern test to evaluate the validator with: some scheme, \<^verbatim>\<open>://\<close> and a
  non-empty remainder.\<close>

fun scheme_and_rest :: "string list \<Rightarrow> string \<Rightarrow> bool" where
  "scheme_and_rest ss [] = False"
| "scheme_and_rest ss (c # t) =
     ((take 3 t = ''://'' \<and> drop 3 t \<noteq> []) \<or> scheme_and_rest ss t)"

section \<open>The route handlers\<close>

text \<open>
  Each handler is an async function: run in a world, it leaves a world and either returns
  a value (its promise fulfils) or throws (its promise rejects). \<^verbatim>\<open>console.log\<close> is
  left out.
\<close>

definition backend_error :: "string \<Rightarrow> jsval" where
  "backend_error msg = JObj [(''errors'', JObj [(''backend'', JStr msg)])]"

definition bookmarks_error :: "string \<Rightarrow> jsval" where
  "bookmarks_error msg = JObj [(''errors'', JObj [(''bookmarks'', JStr msg)])]"

definition ok_body :: jsval where
  "ok_body = JObj [(''data'', JStr ''OK'')]"

subsection \<open>GET /\<close>

definition find_options :: "jsobj \<Rightarrow> jsval \<Rightarrow> jsval" where
  "find_options queryParams whereClause =
     JObj [(''where'', whereClause),
           (''order'', JArr [JArr [lookup queryParams ''sort_by'',
                                   lookup queryParams ''sort_dir'']]),
           (''offset'', lookup queryParams ''offset''),
           (''limit'', lookup queryParams ''limit'')]"

definition list_result :: "nat \<Rightarrow> jsval \<Rightarrow> jsval" where
  "list_result amount data = JObj [(''length'', JNum (int amount)), (''data'', data)]"

text \<open>The body of the \<^verbatim>\<open>try\<close> block of the list handler.\<close>

definition get_try ::
  "('s, jsval) orm_read \<Rightarrow> ('s, nat) orm_read \<Rightarrow> jsobj \<Rightarrow> jsval \<Rightarrow> ('s, jsval) io" where
  "get_try findAll count queryParams whereClause =
     io_bind (await_read (findAll (find_options queryParams whereClause))) (\<lambda>data.
     io_bind (await_read (count (JObj [(''where'', whereClause)]))) (\<lambda>amount.
     io_then (io_when (amount = 0)
                (res_json 401 (bookmarks_error ''No bookmark found with this query!'')))
    (io_then (io_when (\<not> truthy data \<and> amount \<noteq> 0)
                (res_json 400 (backend_error ''Bad order request!'')))
    (io_then (res_json 200 (list_result amount data))
             (io_return JUndefined)))))"

definition get_catch :: "js_error \<Rightarrow> ('s, jsval) io" where
  "get_catch error =
     io_then (res_json 400 (JObj [(''errors'',
                JObj [(''backend'', JArr [JStr ''Can't get bookmarks''])])]))
             (io_return JUndefined)"

text \<open>The list handler. The three statements before the \<^verbatim>\<open>try\<close> block are outside
  it: what they throw leaves the handler. \<^verbatim>\<open>Object.assign\<close> has the module's
  \<^verbatim>\<open>defaultQueryParams\<close> as its target.\<close>

definition router_get ::
  "('s, jsval) orm_read \<Rightarrow> ('s, nat) orm_read \<Rightarrow> jsobj \<Rightarrow> ('s, jsval) io" where
  "router_get findAll count query w =
     (let explodedRequestQuery = explodeRequestQuery (defaults w) query in
      case get_member explodedRequestQuery ''query'' of
        Inl e \<Rightarrow> (w, Inl e)
      | Inr queryParams0 \<Rightarrow>
          (case get_member explodedRequestQuery ''where'' of
             Inl e \<Rightarrow> (w, Inl e)
           | Inr whereClause \<Rightarrow>
               (let w1 = w\<lparr>defaults := object_assign (defaults w) queryParams0\<rparr>;
                    queryParams = defaults w1
                in try_catch (get_try findAll count queryParams whereClause) get_catch w1)))"

subsection \<open>POST /\<close>

definition post_try :: "'s orm_write \<Rightarrow> int \<Rightarrow> jsobj \<Rightarrow> ('s, jsval) io" where
  "post_try create now body =
     (let favorites = js_or (lookup body ''favorites'') (JBool False);
          description = js_or (lookup body ''description'') (JStr '''')
      in io_bind (await_write (create (JObj [(''link'', lookup body ''link''),
                                             (''description'', description),
                                             (''favorites'', favorites),
                                             (''createdAt'', JNum now)]))) (\<lambda>query.
         io_then (if \<not> truthy query
                  then res_json 400 (backend_error ''Can't create bookmark!'')
                  else res_json 200 (JObj [(''data'',
                         JObj [(''guid'', case get_member query ''guid'' of
                                            Inr v \<Rightarrow> v | Inl e \<Rightarrow> JUndefined),
                               (''createdAt'', case get_member query ''createdAt'' of
                                                 Inr v \<Rightarrow> v | Inl e \<Rightarrow> JUndefined)])]))
                 (io_return JUndefined)))"

definition post_catch :: "js_error \<Rightarrow> ('s, jsval) io" where
  "post_catch error =
     io_then (res_json 400 (backend_error ''Can't create bookmark!'')) (io_return JUndefined)"

text \<open>The create handler; \<open>now\<close> is what \<^verbatim>\<open>Date.now()\<close> returns in this call.\<close>

definition router_post ::
  "(string list \<Rightarrow> string \<Rightarrow> bool) \<Rightarrow> 's orm_write \<Rightarrow> int \<Rightarrow> jsobj \<Rightarrow> ('s, jsval) io" where
  "router_post pat create now body =
     (let validationResult = validate pat body in
      if truthy validationResult
      then io_then (send_validation_error validationResult) (io_return (JNum 0))
      else try_catch (post_try create now body) post_catch)"

subsection \<open>PATCH /:guid\<close>

definition patch_try :: "(jsobj \<Rightarrow> 's orm_write) \<Rightarrow> string \<Rightarrow> jsobj \<Rightarrow> ('s, jsval) io" where
  "patch_try update g body =
     io_bind (await_write (update body (where_guid g))) (\<lambda>query.
     io_then (if \<not> truthy query
              then res_json 400 (JObj [(''backend'', JStr ''Can't patch bookmark!'')])
              else res_json 200 ok_body)
             (io_return JUndefined))"

definition patch_catch :: "js_error \<Rightarrow> ('s, jsval) io" where
  "patch_catch error =
     io_then (res_json 400 (backend_error ''Can't patch bookmark!'')) (io_return JUndefined)"

text \<open>The update handler. The call of the existence check has no \<^verbatim>\<open>await\<close>:
  \<^verbatim>\<open>check\<close> is the promise. The 404 branch has no \<^verbatim>\<open>return\<close>.\<close>

definition router_patch ::
  "(string list \<Rightarrow> string \<Rightarrow> bool) \<Rightarrow> ('s, nat) orm_read \<Rightarrow> (jsobj \<Rightarrow> 's orm_write) \<Rightarrow>
   string \<Rightarrow> jsobj \<Rightarrow> ('s, jsval) io" where
  "router_patch pat count update g body w =
     (let check = chechGuidExistence count g (store w) in
      io_then (io_when (\<not> truthy check)
                 (res_json 404 (bookmarks_error (''404 Bookmark not found with UUID = '' @ g))))
        (if truthy (lookup body ''link'')
         then (let validationResult = validate pat body in
               if truthy validationResult
               then io_then (send_validation_error validationResult) (io_return (JNum 0))
               else try_catch (patch_try update g body) patch_catch)
         else try_catch (patch_try update g body) patch_catch) w)"

subsection \<open>DELETE /:guid\<close>

definition delete_try :: "'s orm_write \<Rightarrow> string \<Rightarrow> ('s, jsval) io" where
  "delete_try destroy g =
     io_bind (await_write (destroy (where_guid g))) (\<lambda>query.
     io_then (if \<not> truthy query
              then res_json 400 (backend_error ''Can't delete boorkmark!'')
              else res_json 200 ok_body)
             (io_return JUndefined))"

definition delete_catch :: "js_error \<Rightarrow> ('s, jsval) io" where
  "delete_catch error =
     io_then (res_json 400 (backend_error ''Can't delete bookmark!'')) (io_return JUndefined)"

text \<open>The delete handler. Here too \<^verbatim>\<open>checkGuid\<close> is the promise.\<close>

definition router_delete :: "('s, nat) orm_read \<Rightarrow> 's orm_write \<Rightarrow> string \<Rightarrow> ('s, jsval) io" where
  "router_delete count destroy g w =
     (let checkGuid = chechGuidExistence count g (store w) in
      if \<not> truthy checkGuid
      then io_then (res_json 404 (bookmarks_error (''404 Bookmark not found with guid '' @ g)))
                   (io_return (JNum 0)) w
      else try_catch (delete_try destroy g) delete_catch w)"

section \<open>The bookmarks model and a table behind it\<close>

datatype data_type = UUID | STRING "nat option" | INTEGER | BOOLEAN

text \<open>A column's declaration; \<open>defaultValue\<close> is undefined where none is declared.\<close>

record column =
  dataType :: data_type
  allowNull :: bool
  primaryKey :: bool
  defaultValue :: jsval

text \<open>
  \<^verbatim>\<open>sequelize.define('bookmarks', {...})\<close>. The declaration is an object literal, built
  once, when the model is defined: the expression \<^verbatim>\<open>uuid()\<close> of the guid's default is a
  call, evaluated then, and \<open>u\<close> is the string it returned.
\<close>

definition bookmarks :: "string \<Rightarrow> (string \<times> column) list" where
  "bookmarks u =
     [(''guid'', \<lparr>dataType = UUID, allowNull = False, primaryKey = True,
                  defaultValue = JStr u\<rparr>),
      (''link'', \<lparr>dataType = STRING (Some 256), allowNull = False, primaryKey = False,
                  defaultValue = JStr ''''\<rparr>),
      (''createdAt'', \<lparr>dataType = INTEGER, allowNull = False, primaryKey = False,
                       defaultValue = JUndefined\<rparr>),
      (''updatedAt'', \<lparr>dataType = INTEGER, allowNull = True, primaryKey = False,
                       defaultValue = JUndefined\<rparr>),
      (''description'', \<lparr>dataType = STRING None, allowNull = True, primaryKey = False,
                         defaultValue = JUndefined\<rparr>),
      (''favorites'', \<lparr>dataType = BOOLEAN, allowNull = False, primaryKey = False,
                       defaultValue = JBool False\<rparr>)]"

text \<open>
  A table to run the handlers on: a list of rows, oldest first, with the methods the
  handlers call. It follows the model's declaration in what the properties below need (a
  value that is not supplied is the column's default, a column that forbids null rejects
  it, the primary key is unique, a filter is an equality on columns) and leaves the rest
  of the mapper out (type checks, lengths, the mapper's own timestamps).
\<close>

type_synonym table = "jsobj list"

definition build :: "(string \<times> column) list \<Rightarrow> jsval \<Rightarrow> jsobj" where
  "build model values =
     map (\<lambda>(name, col).
            (name,
             let v = (case get_member values name of Inr x \<Rightarrow> x | Inl e \<Rightarrow> JUndefined)
             in if v \<noteq> JUndefined then v
                else if defaultValue col \<noteq> JUndefined then defaultValue col
                else JNull))
         model"

definition primary_key :: "(string \<times> column) list \<Rightarrow> jsobj \<Rightarrow> jsval list" where
  "primary_key model row =
     map (\<lambda>(name, col). lookup row name) (filter (\<lambda>(name, col). primaryKey col) model)"

definition table_create :: "(string \<times> column) list \<Rightarrow> table orm_write" where
  "table_create model values t =
     (let row = build model values in
      if list_ex (\<lambda>(name, col). \<not> allowNull col \<and> lookup row name = JNull) model
      then (t, Inl ValidationError)
      else if list_ex (\<lambda>r. primary_key model r = primary_key model row) t
      then (t, Inl UniqueConstraintError)
      else (t @ [row], Inr (JObj row)))"

text \<open>The rows a \<^verbatim>\<open>where\<close> option selects; a filter on a name that is no column is an
  error of the database.\<close>

definition where_of :: "jsval \<Rightarrow> jsobj" where
  "where_of options =
     (case get_member options ''where'' of Inr (JObj wh) \<Rightarrow> wh | _ \<Rightarrow> [])"

definition selects :: "jsobj \<Rightarrow> jsobj \<Rightarrow> bool" where
  "selects wh row = list_all (\<lambda>(k, v). lookup row k = v) wh"

definition known_columns :: "(string \<times> column) list \<Rightarrow> jsobj \<Rightarrow> bool" where
  "known_columns model wh = list_all (\<lambda>(k, v). k \<in> set (map fst model)) wh"

definition table_count :: "(string \<times> column) list \<Rightarrow> (table, nat) orm_read" where
  "table_count model options t =
     (if known_columns model (where_of options)
      then Inr (length (filter (selects (where_of options)) t))
      else Inl DatabaseError)"

definition table_destroy :: "(string \<times> column) list \<Rightarrow> table orm_write" where
  "table_destroy model options t =
     (if known_columns model (where_of options)
      then (filter (\<lambda>row. \<not> selects (where_of options) row) t,
            Inr (JNum (int (length (filter (selects (where_of options)) t)))))
      else (t, Inl DatabaseError))"

definition table_update :: "(string \<times> column) list \<Rightarrow> jsobj \<Rightarrow> table orm_write" where
  "table_update model values options t =
     (if known_columns model (where_of options)
      then (map (\<lambda>row. if selects (where_of options) row
                        then object_assign row
                               (JObj (filter (\<lambda>(k, v). k \<in> set (map fst model)) values))
                        else row) t,
            Inr (JArr [JNum (int (length (filter (selects (where_of options)) t)))]))
      else (t, Inl DatabaseError))"

text \<open>The row the create handler leaves for a body with a link only.\<close>

definition created_row :: "string \<Rightarrow> string \<Rightarrow> int \<Rightarrow> jsobj" where
  "created_row g l t =
     [(''guid'', JStr g), (''link'', JStr l), (''createdAt'', JNum t),
      (''updatedAt'', JNull), (''description'', JStr []), (''favorites'', JBool False)]"

text \<open>On a table with no row every \<^verbatim>\<open>findAll\<close> fulfils with the empty page and every
  \<^verbatim>\<open>count\<close> with zero.\<close>

definition findAll_empty :: "(table, jsval) orm_read" where
  "findAll_empty options t = Inr (JArr [])"

text \<open>A \<^verbatim>\<open>findAll\<close> that answers with the options it was called with, to observe
  them.\<close>

definition findAll_echo :: "(table, jsval) orm_read" where
  "findAll_echo options t = Inr (JArr [options])"

section \<open>Properties of the query splitter\<close>

lemma keys_defaultQueryParams: "set (keys defaultQueryParams) = control_keys"
  by (auto simp: defaultQueryParams_def keys_def control_keys_def)

lemma keys_set_prop: "set (keys (set_prop obj k v)) = insert k (set (keys obj))"
proof (induction obj)
  case Nil
  show ?case by (simp add: keys_def)
next
  case (Cons e obj)
  obtain a w where e: "e = (a, w)" by (cases e)
  from Cons show ?case by (auto simp: keys_def e)
qed

lemma set_prop_existing_keys:
  "k \<in> set (keys obj) \<Longrightarrow> keys (set_prop obj k v) = keys obj"
proof (induction obj)
  case Nil
  then show ?case by (simp add: keys_def)
next
  case (Cons e obj)
  obtain a w where e: "e = (a, w)" by (cases e)
  from Cons show ?case by (auto simp: keys_def e)
qed

text \<open>
  C1. For a query object with at least one entry, the splitter handles the first entry
  only: the result is the pair of buckets with that one key in the control bucket when it
  is one of limit, offset, sort_by, sort_dir, and in the filter bucket otherwise; no other
  key of the input is in either bucket. The keys of \<^verbatim>\<open>defaultQueryParams\<close> are those
  four at every moment (\<open>router_get_keeps_keys\<close> below), and the keys of an object are
  distinct.
\<close>

theorem explodeRequestQuery_first_pair_only:
  assumes "set (keys dqp) = control_keys"
    and "distinct (keys ((key, param) # rest))"
  shows "explodeRequestQuery dqp ((key, param) # rest) =
           (if key \<in> control_keys
            then JObj [(''query'', JObj [(key, param)]), (''where'', JObj [])]
            else JObj [(''query'', JObj []), (''where'', JObj [(key, param)])])
         \<and> (\<forall>k \<in> set (keys rest).
               k \<notin> bucket_keys (explodeRequestQuery dqp ((key, param) # rest)) ''query''
             \<and> k \<notin> bucket_keys (explodeRequestQuery dqp ((key, param) # rest)) ''where'')"
  using assms
  by (auto simp: hasOwnProperty_def bucket_keys_def lookup_def keys_def)

theorem explodeRequestQuery_first_pair_only_witness:
  "explodeRequestQuery defaultQueryParams
     [(''favorites'', JStr ''true''), (''limit'', JStr ''5''), (''link'', JStr ''x'')]
     = JObj [(''query'', JObj []), (''where'', JObj [(''favorites'', JStr ''true'')])]
   \<and> explodeRequestQuery defaultQueryParams
     [(''limit'', JStr ''5''), (''favorites'', JStr ''true'')]
     = JObj [(''query'', JObj [(''limit'', JStr ''5'')]), (''where'', JObj [])]
   \<and> ''favorites'' \<notin> bucket_keys (explodeRequestQuery defaultQueryParams
        [(''limit'', JStr ''5''), (''favorites'', JStr ''true'')]) ''where''"
  using explodeRequestQuery_first_pair_only
          [OF keys_defaultQueryParams,
           of "''favorites''" "JStr ''true''" "[(''limit'', JStr ''5''), (''link'', JStr ''x'')]"]
        explodeRequestQuery_first_pair_only
          [OF keys_defaultQueryParams,
           of "''limit''" "JStr ''5''" "[(''favorites'', JStr ''true'')]"]
  by (simp add: keys_def control_keys_def bucket_keys_def lookup_def hasOwnProperty_def
        defaultQueryParams_def)

section \<open>Properties of the existence check\<close>

lemma truthy_chechGuidExistence: "truthy (chechGuidExistence count g s)"
  by (cases "count (where_guid g) s") (simp_all add: chechGuidExistence_def promise_then_def)

lemma chechGuidExistence_rejects:
  "count (where_guid g) s = Inl e \<Longrightarrow> await (chechGuidExistence count g s) = Inl e"
  by (simp add: chechGuidExistence_def promise_then_def)

lemma chechGuidExistence_never_boolean:
  "await (chechGuidExistence count g s) \<noteq> Inr (JBool b)"
  by (cases "count (where_guid g) s") (simp_all add: chechGuidExistence_def promise_then_def)

text \<open>
  C3. For every identifier, whatever number the count fulfils with, the promise of
  \<^verbatim>\<open>chechGuidExistence\<close> fulfils with undefined: a caller that awaits it receives
  undefined, not the boolean the callback computed from the count. (When the count
  rejects there is nothing to receive: the check rejects with the same error,
  \<open>chechGuidExistence_rejects\<close>.)
\<close>

theorem chechGuidExistence_undefined:
  assumes "count (where_guid g) s = Inr n"
  shows "await (chechGuidExistence count g s) = Inr JUndefined
         \<and> count_callback n = JBool (n \<noteq> 0)"
  using assms by (simp add: chechGuidExistence_def promise_then_def count_callback_def)

section \<open>Properties of the handlers\<close>

lemmas io_defs = io_return_def io_throw_def io_bind_def io_then_def io_when_def
  try_catch_def res_json_def await_read_def await_write_def

lemmas table_defs = table_count_def table_destroy_def table_update_def table_create_def
  build_def primary_key_def known_columns_def selects_def where_of_def where_guid_def
  bookmarks_def created_row_def

lemma lookup_Nil [simp]: "lookup [] key = JUndefined"
  by (simp add: lookup_def)

lemma lookup_Cons [simp]: "lookup ((k, v) # obj) key = (if k = key then v else lookup obj key)"
  by (simp add: lookup_def)

theorem chechGuidExistence_undefined_witness:
  "table_count (bookmarks ''u'') (where_guid ''a'') [created_row ''a'' ''https://example.com'' 5]
     = Inr 1
   \<and> await (chechGuidExistence (table_count (bookmarks ''u'')) ''a''
              [created_row ''a'' ''https://example.com'' 5]) = Inr JUndefined
   \<and> count_callback 1 = JBool True"
proof -
  have h: "table_count (bookmarks ''u'') (where_guid ''a'')
             [created_row ''a'' ''https://example.com'' 5] = Inr 1"
    by (simp add: table_defs)
  show ?thesis
    using h chechGuidExistence_undefined
        [where count = "table_count (bookmarks ''u'')" and g = "''a''"
           and s = "[created_row ''a'' ''https://example.com'' 5]" and n = 1, OF h]
    by simp
qed

subsection \<open>The list handler\<close>

lemma defaults_get_try:
  "defaults (fst (try_catch (get_try findAll count qp wc) get_catch w)) = defaults w"
  by (auto simp: get_try_def get_catch_def io_defs split: sum.splits prod.splits)

lemma router_get_defaults:
  "defaults (fst (router_get findAll count query w)) =
     (case query of
        [] \<Rightarrow> defaults w
      | (key, param) # rest \<Rightarrow>
          if hasOwnProperty (defaults w) key then set_prop (defaults w) key param
          else defaults w)"
  by (cases query) (auto simp: router_get_def defaults_get_try)

text \<open>The list handler changes values of \<^verbatim>\<open>defaultQueryParams\<close>, never its keys.\<close>

lemma router_get_keeps_keys:
  "keys (defaults (fst (router_get findAll count query w))) = keys (defaults w)"
  by (auto simp: router_get_defaults hasOwnProperty_def set_prop_existing_keys split: list.splits)

text \<open>
  C2. The specification: a list request with no query parameter is answered with 200, at
  most 50 records by ascending createdAt and the total count. The code, on the empty query
  object:
  the splitter returns undefined, reading \<^verbatim>\<open>.query\<close> of it throws a TypeError before
  the \<^verbatim>\<open>try\<close> block is entered, so the handler ends with no response at all, the table
  never asked.
\<close>

theorem router_get_no_query_throws:
  "router_get findAll count [] w = (w, Inl TypeError)"
  by (simp add: router_get_def)

text \<open>
  C8. In the list handler, when the count is zero, the first call on the response is the
  401 with the bookmarks-scoped error, and the next call, in the same run, is the 200 of
  the success path with the result object.
\<close>

theorem router_get_zero_matches:
  assumes "get_member (explodeRequestQuery (defaults w) query) ''query'' = Inr q0"
    and "get_member (explodeRequestQuery (defaults w) query) ''where'' = Inr wc"
    and "findAll (find_options (object_assign (defaults w) q0) wc) (store w) = Inr data"
    and "count (JObj [(''where'', wc)]) (store w) = Inr 0"
    and "responses w = []"
  shows "take 2 (responses (fst (router_get findAll count query w))) =
           [(401, bookmarks_error ''No bookmark found with this query!''),
            (200, list_result 0 data)]"
  using assms by (simp add: router_get_def get_try_def get_catch_def io_defs)

theorem router_get_zero_matches_witness:
  "get_member (explodeRequestQuery defaultQueryParams [(''link'', JStr ''nothing'')]) ''query''
     = Inr (JObj [])
   \<and> get_member (explodeRequestQuery defaultQueryParams [(''link'', JStr ''nothing'')]) ''where''
     = Inr (JObj [(''link'', JStr ''nothing'')])
   \<and> table_count (bookmarks ''u'') (JObj [(''where'', JObj [(''link'', JStr ''nothing'')])]) []
     = Inr 0
   \<and> take 2 (responses (fst (router_get findAll_empty (table_count (bookmarks ''u''))
        [(''link'', JStr ''nothing'')] (fresh [] defaultQueryParams))))
     = [(401, bookmarks_error ''No bookmark found with this query!''),
        (200, list_result 0 (JArr []))]"
proof -
  let ?w = "fresh ([] :: table) defaultQueryParams"
  let ?q = "[(''link'', JStr ''nothing'')]"
  have q: "get_member (explodeRequestQuery (defaults ?w) ?q) ''query'' = Inr (JObj [])"
    by (simp add: fresh_def defaultQueryParams_def hasOwnProperty_def keys_def)
  have wh: "get_member (explodeRequestQuery (defaults ?w) ?q) ''where''
              = Inr (JObj [(''link'', JStr ''nothing'')])"
    by (simp add: fresh_def defaultQueryParams_def hasOwnProperty_def keys_def)
  have f: "findAll_empty (find_options (object_assign (defaults ?w) (JObj []))
             (JObj [(''link'', JStr ''nothing'')])) (store ?w) = Inr (JArr [])"
    by (simp add: findAll_empty_def)
  have c: "table_count (bookmarks ''u'') (JObj [(''where'', JObj [(''link'', JStr ''nothing'')])])
             (store ?w) = Inr 0"
    by (simp add: fresh_def table_defs)
  have r: "responses ?w = []" by (simp add: fresh_def)
  show ?thesis
    using q wh c router_get_zero_matches
        [where findAll = findAll_empty and count = "table_count (bookmarks ''u'')"
           and w = ?w and query = ?q, OF q wh f c r]
    by (simp add: fresh_def)
qed

text \<open>The whole run with a zero count: the second call throws, the \<^verbatim>\<open>catch\<close> block
  makes a third, which throws out of the handler.\<close>

lemma router_get_zero_matches_trace:
  assumes "get_member (explodeRequestQuery (defaults w) query) ''query'' = Inr q0"
    and "get_member (explodeRequestQuery (defaults w) query) ''where'' = Inr wc"
    and "findAll (find_options (object_assign (defaults w) q0) wc) (store w) = Inr data"
    and "count (JObj [(''where'', wc)]) (store w) = Inr 0"
    and "responses w = []"
  shows "router_get findAll count query w =
           (w\<lparr>responses :=
                 [(401, bookmarks_error ''No bookmark found with this query!''),
                  (200, list_result 0 data),
                  (400, JObj [(''errors'', JObj [(''backend'', JArr [JStr ''Can't get bookmarks''])])])],
               defaults := object_assign (defaults w) q0\<rparr>,
            Inl ERR_HTTP_HEADERS_SENT)"
  using assms by (simp add: router_get_def get_try_def get_catch_def io_defs)

text \<open>
  C9. The specification: no handler changes state outside the store, so a list request
  leaves the module's default control parameters as they were. The code, on the query
  \<^verbatim>\<open>?limit=5\<close> with the module as loaded: \<^verbatim>\<open>Object.assign\<close> writes the request's
  limit into \<^verbatim>\<open>defaultQueryParams\<close> itself, whatever the table answers.
\<close>

theorem router_get_changes_defaults:
  "defaults (fst (router_get findAll count [(''limit'', JStr ''5'')] (fresh s defaultQueryParams)))
     = [(''limit'', JStr ''5''), (''offset'', JNum 0),
        (''sort_by'', JStr ''createdAt''), (''sort_dir'', JStr ''asc'')]"
  by (simp add: router_get_defaults fresh_def defaultQueryParams_def hasOwnProperty_def keys_def)

text \<open>The next request, which names no limit, asks the table for five rows.\<close>

lemma router_get_uses_changed_defaults:
  "responses (fst (router_get findAll_echo (table_count (bookmarks u))
       [(''sort_dir'', JStr ''desc'')]
       (next_request (fst (router_get findAll_echo (table_count (bookmarks u))
          [(''limit'', JStr ''5'')]
          (fresh [created_row u ''https://example.com'' t] defaultQueryParams))))))
   = [(200, list_result 1 (JArr [JObj [(''where'', JObj []),
         (''order'', JArr [JArr [JStr ''createdAt'', JStr ''desc'']]),
         (''offset'', JNum 0), (''limit'', JStr ''5'')]]))]"
  by (simp add: router_get_def get_try_def get_catch_def io_defs fresh_def next_request_def
        defaultQueryParams_def hasOwnProperty_def keys_def findAll_echo_def find_options_def
        table_defs)

subsection \<open>The guard of the update and delete handlers\<close>

text \<open>
  C4, for a record that exists. When the count finds a record with the guid, DELETE does
  not take the not-found branch: it goes on to the destroy call and, that call reporting
  the removed rows, answers 200 and leaves the table as destroy left it; and PATCH for
  such a record does not answer 404.
\<close>

theorem existing_record_passes_guard:
  assumes "count (where_guid g) s = Inr n" and "0 < n"
    and "destroy (where_guid g) s = (s', Inr query)" and "truthy query"
  shows "router_delete count destroy g (fresh s d) =
           (\<lparr>responses = [(200, ok_body)], store = s', defaults = d\<rparr>, Inr JUndefined)
         \<and> 404 \<notin> fst ` set (responses (fst (router_patch pat count update g body (fresh s d))))"
proof -
  have check: "chechGuidExistence count g s = JPromise (Fulfilled JUndefined)"
    using assms(1) by (simp add: chechGuidExistence_def promise_then_def)
  have del: "router_delete count destroy g (fresh s d) =
               (\<lparr>responses = [(200, ok_body)], store = s', defaults = d\<rparr>, Inr JUndefined)"
    using assms(3,4)
    by (simp add: router_delete_def check delete_try_def io_defs fresh_def)
  have pat: "404 \<notin> fst ` set (responses (fst (router_patch pat count update g body (fresh s d))))"
    by (auto simp: router_patch_def check fresh_def patch_try_def patch_catch_def io_defs
          Let_def send_validation_error_def
        split: sum.splits prod.splits)
  from del pat show ?thesis by simp
qed

theorem existing_record_passes_guard_witness:
  "table_count (bookmarks ''u'') (where_guid ''b'') [created_row ''b'' ''https://example.org'' 7]
     = Inr 1
   \<and> table_destroy (bookmarks ''u'') (where_guid ''b'')
       [created_row ''b'' ''https://example.org'' 7] = ([], Inr (JNum 1))
   \<and> router_delete (table_count (bookmarks ''u'')) (table_destroy (bookmarks ''u'')) ''b''
       (fresh [created_row ''b'' ''https://example.org'' 7] defaultQueryParams)
     = (\<lparr>responses = [(200, ok_body)], store = [], defaults = defaultQueryParams\<rparr>,
        Inr JUndefined)
   \<and> 404 \<notin> fst ` set (responses (fst
       (router_patch scheme_and_rest (table_count (bookmarks ''u''))
          (table_update (bookmarks ''u'')) ''b'' [(''description'', JStr ''x'')]
          (fresh [created_row ''b'' ''https://example.org'' 7] defaultQueryParams))))"
proof -
  let ?t = "[created_row ''b'' ''https://example.org'' 7]"
  have c: "table_count (bookmarks ''u'') (where_guid ''b'') ?t = Inr 1"
    by (simp add: table_defs)
  have n: "(0::nat) < 1" by simp
  have x: "table_destroy (bookmarks ''u'') (where_guid ''b'') ?t = ([], Inr (JNum 1))"
    by (simp add: table_defs)
  have q: "truthy (JNum 1)" by simp
  show ?thesis
    using c x existing_record_passes_guard
        [where count = "table_count (bookmarks ''u'')" and destroy = "table_destroy (bookmarks ''u'')"
           and g = "''b''" and s = ?t and n = 1 and s' = "[]" and query = "JNum 1"
           and d = defaultQueryParams and pat = scheme_and_rest
           and update = "table_update (bookmarks ''u'')"
           and body = "[(''description'', JStr ''x'')]", OF c n x q]
    by simp
qed

text \<open>
  C4, as the specification has it (every DELETE answers 404 and deletes nothing), fails
  on a table that holds the row: the answer is 200 and the row is gone.
\<close>

theorem delete_existing_counterexample:
  "table_count (bookmarks ''u'') (where_guid ''a'') [created_row ''a'' ''https://example.com'' 5]
     = Inr 1
   \<and> router_delete (table_count (bookmarks ''u'')) (table_destroy (bookmarks ''u'')) ''a''
       (fresh [created_row ''a'' ''https://example.com'' 5] defaultQueryParams)
     = (\<lparr>responses = [(200, ok_body)], store = [], defaults = defaultQueryParams\<rparr>,
        Inr JUndefined)"
  by (simp add: router_delete_def truthy_chechGuidExistence delete_try_def delete_catch_def
        io_defs fresh_def table_defs)

subsection \<open>The link validator\<close>

lemma validate_string:
  assumes "lookup body ''link'' = JStr s"
  shows "validate pat body =
           (if \<not> pat [''.+''] s
            then JObj [(''link'', JArr (invalid_link #
                    (if s \<in> banned_links then [blocked_domain] else [])))]
            else if s \<in> banned_links then JObj [(''link'', JArr [blocked_domain])]
            else JUndefined)"
  using assms
  by (simp add: validate_def bookmarkLinkConstraints_def presence_errors_def
        url_errors_def exclusion_errors_def is_defined_def hasOwnProperty_def keys_def
        invalid_link_def blocked_domain_def banned_links_def)

lemma validate_absent:
  assumes "lookup body ''link'' = JUndefined"
  shows "validate pat body = JObj [(''link'', JArr [JStr ''Link can't be blank''])]"
  using assms
  by (simp add: validate_def bookmarkLinkConstraints_def presence_errors_def
        url_errors_def exclusion_errors_def is_defined_def)

text \<open>The create handler answers a rejected link with the verdict and stops.\<close>

lemma router_post_rejects:
  assumes "link_verdict pat body = Some e"
  shows "router_post pat create now body (fresh s d) =
           (\<lparr>responses = [(400, JObj [(''errors'', JObj [(''validation'', e)])])],
             store = s, defaults = d\<rparr>, Inr (JNum 0))"
  using assms
  by (auto simp: router_post_def link_verdict_def Let_def send_validation_error_def io_defs
        fresh_def split: if_splits sum.splits)

text \<open>
  C5, as the code has it. With a pattern of the library that rejects the empty string and
  matches the four banned literals: a link that is a string is rejected with
  BOOKMARKS_INVALID_LINK when it is empty or does not match the pattern, with
  BOOKMARKS_BLOCKED_DOMAIN when it is one of the four banned literals, and accepted
  otherwise. An absent link is rejected by the presence rule, which has no message of its
  own in the constraints: the error is the library's sentence and carries no code.
\<close>

theorem link_verdict_cases:
  assumes "\<not> pat [''.+''] ''''" and "\<forall>b \<in> banned_links. pat [''.+''] b"
  shows "(lookup body ''link'' = JStr s \<longrightarrow>
            link_verdict pat body =
              (if s = '''' \<or> \<not> pat [''.+''] s then Some invalid_link
               else if s \<in> banned_links then Some blocked_domain
               else None))
       \<and> (lookup body ''link'' = JUndefined \<longrightarrow>
            link_verdict pat body = Some (JStr ''Link can't be blank''))"
  using assms
  by (auto simp: link_verdict_def validate_string validate_absent)

theorem link_verdict_cases_witness:
  "\<not> scheme_and_rest [''.+''] ''''
   \<and> scheme_and_rest [''.+''] ''http://yahoo.com''
   \<and> scheme_and_rest [''.+''] ''https://yahoo.com''
   \<and> scheme_and_rest [''.+''] ''http://socket.io''
   \<and> scheme_and_rest [''.+''] ''https://socket.io''
   \<and> link_verdict scheme_and_rest [(''link'', JStr '''')] = Some invalid_link
   \<and> link_verdict scheme_and_rest [(''link'', JStr ''example'')] = Some invalid_link
   \<and> link_verdict scheme_and_rest [(''link'', JStr ''https://yahoo.com'')] = Some blocked_domain
   \<and> link_verdict scheme_and_rest [(''link'', JStr ''https://example.com'')] = None
   \<and> link_verdict scheme_and_rest [(''description'', JStr ''x'')] = Some (JStr ''Link can't be blank'')"
proof -
  have a: "\<not> scheme_and_rest [''.+''] ''''" by simp
  have b: "\<forall>b \<in> banned_links. scheme_and_rest [''.+''] b"
    by (simp add: banned_links_def)
  show ?thesis
    using a b
      link_verdict_cases [of scheme_and_rest "[(''link'', JStr '''')]" "''''", OF a b]
      link_verdict_cases [of scheme_and_rest "[(''link'', JStr ''example'')]" "''example''", OF a b]
      link_verdict_cases [of scheme_and_rest "[(''link'', JStr ''https://yahoo.com'')]" "''https://yahoo.com''", OF a b]
      link_verdict_cases [of scheme_and_rest "[(''link'', JStr ''https://example.com'')]" "''https://example.com''", OF a b]
      link_verdict_cases [of scheme_and_rest "[(''description'', JStr ''x'')]" "''''", OF a b]
    by (simp add: banned_links_def)
qed

text \<open>
  C5, as the specification has it (an absent link fails with code
  BOOKMARKS_INVALID_LINK), fails on the body with no link: the verdict is the sentence of
  the presence rule.
\<close>

theorem absent_link_counterexample:
  "link_verdict scheme_and_rest [] = Some (JStr ''Link can't be blank'')
   \<and> link_verdict scheme_and_rest [] \<noteq> Some invalid_link"
  by (simp add: link_verdict_def validate_absent invalid_link_def)

subsection \<open>The create handler\<close>

text \<open>
  C6. For a body whose link passes the validator and that has no description and no
  favorites, the create handler asks the table for one insert, of the link with
  description the empty string, favorites false and createdAt the time of the call; when
  the insert yields the new row, the answer is 200 and its body holds exactly the guid and
  the createdAt of that row.
\<close>

theorem router_post_creates:
  assumes "validate pat body = JUndefined"
    and "lookup body ''description'' = JUndefined"
    and "lookup body ''favorites'' = JUndefined"
    and "create (JObj [(''link'', lookup body ''link''), (''description'', JStr ''''),
                       (''favorites'', JBool False), (''createdAt'', JNum now)]) s
           = (s', Inr (JObj row))"
  shows "router_post pat create now body (fresh s d) =
           (\<lparr>responses = [(200, JObj [(''data'',
                JObj [(''guid'', lookup row ''guid''),
                      (''createdAt'', lookup row ''createdAt'')])])],
             store = s', defaults = d\<rparr>, Inr JUndefined)"
  using assms
  by (simp add: router_post_def post_try_def js_or_def io_defs fresh_def)

theorem router_post_creates_witness:
  "validate scheme_and_rest [(''link'', JStr ''https://example.com'')] = JUndefined
   \<and> table_create (bookmarks ''u'')
       (JObj [(''link'', JStr ''https://example.com''), (''description'', JStr ''''),
              (''favorites'', JBool False), (''createdAt'', JNum 1547459442106)]) []
     = ([created_row ''u'' ''https://example.com'' 1547459442106],
        Inr (JObj (created_row ''u'' ''https://example.com'' 1547459442106)))
   \<and> router_post scheme_and_rest (table_create (bookmarks ''u'')) 1547459442106
       [(''link'', JStr ''https://example.com'')] (fresh [] defaultQueryParams)
     = (\<lparr>responses = [(200, JObj [(''data'',
            JObj [(''guid'', JStr ''u''), (''createdAt'', JNum 1547459442106)])])],
         store = [created_row ''u'' ''https://example.com'' 1547459442106],
         defaults = defaultQueryParams\<rparr>, Inr JUndefined)"
proof -
  let ?body = "[(''link'', JStr ''https://example.com'')]"
  have v: "validate scheme_and_rest ?body = JUndefined"
    by (simp add: validate_string [of ?body "''https://example.com''"] banned_links_def)
  have d: "lookup ?body ''description'' = JUndefined" by simp
  have f: "lookup ?body ''favorites'' = JUndefined" by simp
  have c: "table_create (bookmarks ''u'')
             (JObj [(''link'', lookup ?body ''link''), (''description'', JStr ''''),
                    (''favorites'', JBool False), (''createdAt'', JNum 1547459442106)]) []
           = ([created_row ''u'' ''https://example.com'' 1547459442106],
              Inr (JObj (created_row ''u'' ''https://example.com'' 1547459442106)))"
    by (simp add: table_defs Let_def)
  show ?thesis
    using v c router_post_creates
        [where pat = scheme_and_rest and create = "table_create (bookmarks ''u'')"
           and body = ?body and d = defaultQueryParams, OF v d f c]
    by (simp add: created_row_def)
qed

text \<open>A row built with no guid supplied has the one guid of the declaration.\<close>

lemma build_default_guid:
  assumes "get_member values ''guid'' = Inr JUndefined"
  shows "lookup (build (bookmarks u) values) ''guid'' = JStr u"
  using assms by (simp add: build_def bookmarks_def)

text \<open>
  C7. The specification: two creates that rely on the default identifier give rows with
  distinct guids. The code, on two create requests in a row, on an empty table: the default is the
  one string \<open>u\<close> for both, the second insert breaks the primary key, and the second
  request is answered with 400, the table still holding the first row only.
\<close>

theorem second_create_same_guid:
  "router_post scheme_and_rest (table_create (bookmarks u)) t2
     [(''link'', JStr ''https://example.org'')]
     (next_request (fst (router_post scheme_and_rest (table_create (bookmarks u)) t1
        [(''link'', JStr ''https://example.com'')] (fresh [] d))))
   = (\<lparr>responses = [(400, backend_error ''Can't create bookmark!'')],
       store = [created_row u ''https://example.com'' t1], defaults = d\<rparr>,
      Inr JUndefined)"
proof -
  have v1: "validate scheme_and_rest [(''link'', JStr ''https://example.com'')] = JUndefined"
    by (simp add: validate_string [of _ "''https://example.com''"] banned_links_def)
  have v2: "validate scheme_and_rest [(''link'', JStr ''https://example.org'')] = JUndefined"
    by (simp add: validate_string [of _ "''https://example.org''"] banned_links_def)
  show ?thesis
    by (simp add: router_post_def v1 v2 post_try_def post_catch_def js_or_def io_defs
          fresh_def next_request_def table_defs Let_def)
qed

subsection \<open>The update handler\<close>

text \<open>
  C10. For a body whose link is the empty string, the update handler skips the validator
  (the string is falsy) and hands the whole body, the empty link in it, to the update
  call, answering by what that call yields; the validator, had it run, rejects the body
  with BOOKMARKS_INVALID_LINK, the library's pattern rejecting the empty string.
\<close>

theorem patch_skips_empty_link:
  assumes "lookup body ''link'' = JStr ''''"
  shows "router_patch pat count update g body (fresh s d) =
           (case update body (where_guid g) s of
              (s', Inl e) \<Rightarrow>
                (\<lparr>responses = [(400, backend_error ''Can't patch bookmark!'')],
                  store = s', defaults = d\<rparr>, Inr JUndefined)
            | (s', Inr query) \<Rightarrow>
                (\<lparr>responses = [if truthy query then (200, ok_body)
                                else (400, JObj [(''backend'', JStr ''Can't patch bookmark!'')])],
                  store = s', defaults = d\<rparr>, Inr JUndefined))
         \<and> (\<not> pat [''.+''] '''' \<longrightarrow> link_verdict pat body = Some invalid_link)"
  using assms
  by (auto simp: router_patch_def truthy_chechGuidExistence patch_try_def patch_catch_def
        io_defs fresh_def link_verdict_def validate_string
      split: sum.splits prod.splits)

theorem patch_skips_empty_link_witness:
  "lookup [(''link'', JStr '''')] ''link'' = JStr '''' \<and> \<not> scheme_and_rest [''.+''] ''''
   \<and> router_patch scheme_and_rest (table_count (bookmarks ''u'')) (table_update (bookmarks ''u''))
       ''a'' [(''link'', JStr '''')]
       (fresh [created_row ''a'' ''https://example.com'' 5] defaultQueryParams)
     = (\<lparr>responses = [(200, ok_body)], store = [created_row ''a'' '''' 5],
         defaults = defaultQueryParams\<rparr>, Inr JUndefined)
   \<and> link_verdict scheme_and_rest [(''link'', JStr '''')] = Some invalid_link"
proof -
  have l: "lookup [(''link'', JStr '''')] ''link'' = JStr ''''" by simp
  have p: "\<not> scheme_and_rest [''.+''] ''''" by simp
  show ?thesis
    using l p
      patch_skips_empty_link [of "[(''link'', JStr '''')]" scheme_and_rest
        "table_count (bookmarks ''u'')" "table_update (bookmarks ''u'')" "''a''"
        "[created_row ''a'' ''https://example.com'' 5]" defaultQueryParams, OF l]
    by (simp add: table_defs)
qed

end
